theory Spec2Isabelle
  imports Main
begin

section \<open>JavaScript values\<close>

text \<open>
  The three command-line clients (\<open>moneris-cli-no-postman.ts\<close> in its two versions, and
  \<open>moneris-cli.ts\<close>) keep one bearer token in \<open>~/.moneris/token.json\<close>. The functions
  that own it are \<open>ensureConfigDir\<close>, \<open>saveToken\<close> and \<open>loadToken\<close>; \<open>authenticate\<close>
  builds the token, and every payment command starts by loading it.

  Times are JavaScript numbers holding milliseconds since the epoch, durations are whole
  seconds. A number read from the token file is modelled by its value, an \<open>int\<close>, or is
  \<open>NaN\<close>. \<open>loadToken\<close> only subtracts 60000 and compares with \<open>Date.now()\<close>, an
  integer below \<open>2 ^ 53\<close>: there the rounded difference compares as the exact one, so
  the subtraction is taken exactly. \<open>authenticate\<close> multiplies and adds, and its
  arithmetic is modelled with the rounding of doubles, further down.
\<close>

datatype jsnum = NaN | Num int

text \<open>
  What \<open>JSON.parse\<close> can return. An object is the list of its own properties; a
  property read takes the first binding of the key.
\<close>

datatype json =
    JNull
  | JBool bool
  | JNum int
  | JStr string
  | JArr "json list"
  | JObj "(string \<times> json) list"

datatype errno = EACCES | ENOENT | ENOSPC | ENOTDIR | EISDIR | EIO

datatype exn =
    TypeError
  | SyntaxError
  | FsError errno
  | AxiosError

text \<open>
  \<open>token.expires_at\<close> and \<open>token.access_token\<close>: reading a property of \<open>null\<close> throws a
  TypeError; a primitive or an array has no property of these names, so the read gives
  \<open>undefined\<close> (\<open>None\<close>).
\<close>

fun get_prop :: "json \<Rightarrow> string \<Rightarrow> exn + json option" where
  "get_prop JNull k = Inl TypeError"
| "get_prop (JObj kvs) k = Inr (map_of kvs k)"
| "get_prop v k = Inr None"

text \<open>
  ECMAScript's ToNumber, applied by \<open>-\<close> and \<open>>=\<close> to an operand that is not a number.
  \<open>undefined\<close> is \<open>NaN\<close>, \<open>null\<close> is \<open>0\<close>, \<open>true\<close> is \<open>1\<close> and \<open>false\<close> is \<open>0\<close>.
  A string, an array or an object goes through ToPrimitive and StringToNumber, which
  belong to the runtime and not to this program: that part is the parameter \<open>S\<close>.
\<close>

fun ToNumber :: "(json \<Rightarrow> jsnum) \<Rightarrow> json option \<Rightarrow> jsnum" where
  "ToNumber S None = NaN"
| "ToNumber S (Some JNull) = Num 0"
| "ToNumber S (Some (JBool b)) = Num (if b then 1 else 0)"
| "ToNumber S (Some (JNum n)) = Num n"
| "ToNumber S (Some v) = S v"

fun js_sub :: "jsnum \<Rightarrow> int \<Rightarrow> jsnum" where
  "js_sub NaN k = NaN"
| "js_sub (Num n) k = Num (n - k)"

text \<open>\<open>a >= b\<close> with \<open>a\<close> a number: false when \<open>b\<close> is \<open>NaN\<close>.\<close>

fun js_ge :: "int \<Rightarrow> jsnum \<Rightarrow> bool" where
  "js_ge a NaN = False"
| "js_ge a (Num b) = (b \<le> a)"

text \<open>
  \<open>!token\<close> on what \<open>loadToken\<close> returns: \<open>null\<close> (\<open>None\<close>) is falsy, and so are
  \<open>false\<close>, \<open>0\<close> and the empty string.
\<close>

fun falsy :: "json \<Rightarrow> bool" where
  "falsy JNull = True"
| "falsy (JBool b) = (\<not> b)"
| "falsy (JNum n) = (n = 0)"
| "falsy (JStr s) = (s = [])"
| "falsy v = False"

definition js_not :: "json option \<Rightarrow> bool" where
  "js_not r = (case r of None \<Rightarrow> True | Some v \<Rightarrow> falsy v)"

section \<open>The token and its slot on disk\<close>

record AuthToken =
  access_token :: string
  token_type :: string
  expires_in :: int
  expires_at :: int

text \<open>The object a token is, with its properties in the order of the interface.\<close>

definition AuthToken_json :: "AuthToken \<Rightarrow> json" where
  "AuthToken_json t =
     JObj [(''access_token'', JStr (access_token t)),
           (''token_type'', JStr (token_type t)),
           (''expires_in'', JNum (expires_in t)),
           (''expires_at'', JNum (expires_at t))]"

text \<open>
  The text of a file, seen through \<open>JSON.parse\<close>: either the parser rejects it
  (\<open>Garbage\<close>: an empty file, a truncated one, anything malformed) or it is the JSON
  text of a value. \<open>JSON.stringify\<close> writes the text of its argument, and parsing that
  text gives the value back.
\<close>

datatype filetext = Garbage | Json json

definition JSON_stringify :: "json \<Rightarrow> filetext" where
  "JSON_stringify v = Json v"

fun JSON_parse :: "filetext \<Rightarrow> exn + json" where
  "JSON_parse Garbage = Inl SyntaxError"
| "JSON_parse (Json v) = Inr v"

text \<open>
  The part of the file system the program touches: whether \<open>CONFIG_DIR\<close> exists, the
  text of \<open>TOKEN_FILE\<close> when it exists, and what the operating system answers to
  \<open>mkdir\<close>, to a write and to a read of the file (\<open>None\<close>: it succeeds).
\<close>

record filesys =
  config_dir :: bool
  token_file :: "filetext option"
  mkdir_fails :: "errno option"
  write_fails :: "errno option"
  read_fails :: "errno option"

text \<open>\<open>fs.existsSync\<close> on the two paths; it never throws.\<close>

definition existsSync_CONFIG_DIR :: "filesys \<Rightarrow> bool" where
  "existsSync_CONFIG_DIR fs = config_dir fs"

definition existsSync_TOKEN_FILE :: "filesys \<Rightarrow> bool" where
  "existsSync_TOKEN_FILE fs = (token_file fs \<noteq> None)"

definition mkdirSync :: "filesys \<Rightarrow> exn + filesys" where
  "mkdirSync fs =
     (case mkdir_fails fs of
        Some e \<Rightarrow> Inl (FsError e)
      | None \<Rightarrow> Inr (fs\<lparr>config_dir := True\<rparr>))"

definition writeFileSync :: "filesys \<Rightarrow> filetext \<Rightarrow> exn + filesys" where
  "writeFileSync fs d =
     (if \<not> config_dir fs then Inl (FsError ENOENT)
      else case write_fails fs of
        Some e \<Rightarrow> Inl (FsError e)
      | None \<Rightarrow> Inr (fs\<lparr>token_file := Some d\<rparr>))"

definition readFileSync :: "filesys \<Rightarrow> exn + filetext" where
  "readFileSync fs =
     (case token_file fs of
        None \<Rightarrow> Inl (FsError ENOENT)
      | Some d \<Rightarrow>
          (case read_fails fs of
             Some e \<Rightarrow> Inl (FsError e)
           | None \<Rightarrow> Inr d))"

subsection \<open>ensureConfigDir, saveToken\<close>

text \<open>
  Neither function catches anything: an exception of \<open>mkdirSync\<close> or \<open>writeFileSync\<close>
  leaves through \<open>saveToken\<close> (\<open>Inl\<close>). The state a failed call leaves behind is not
  described; the command that called it ends there.
\<close>

definition ensureConfigDir :: "filesys \<Rightarrow> exn + filesys" where
  "ensureConfigDir fs = (if \<not> existsSync_CONFIG_DIR fs then mkdirSync fs else Inr fs)"

definition saveToken :: "AuthToken \<Rightarrow> filesys \<Rightarrow> exn + filesys" where
  "saveToken token fs =
     (case ensureConfigDir fs of
        Inl e \<Rightarrow> Inl e
      | Inr fs1 \<Rightarrow> writeFileSync fs1 (JSON_stringify (AuthToken_json token)))"

subsection \<open>loadToken, in its three versions\<close>

text \<open>
  \<open>loadToken_body\<close> is the \<open>try\<close> block, \<open>loadToken\<close> the function with its
  \<open>catch\<close>, which turns every exception into \<open>null\<close>. The type annotation on
  \<open>JSON.parse(data)\<close> checks nothing, so what is returned is whatever value the file
  holds. This is the version of \<open>moneris-cli-no-postman.ts\<close> built from the REST
  documentation, with its buffer of 60000 milliseconds.
\<close>

definition loadToken_body :: "(json \<Rightarrow> jsnum) \<Rightarrow> int \<Rightarrow> filesys \<Rightarrow> exn + json option" where
  "loadToken_body S now fs =
     (if \<not> existsSync_TOKEN_FILE fs then Inr None
      else case readFileSync fs of
        Inl e \<Rightarrow> Inl e
      | Inr d \<Rightarrow>
          (case JSON_parse d of
             Inl e \<Rightarrow> Inl e
           | Inr token \<Rightarrow>
               (case get_prop token ''expires_at'' of
                  Inl e \<Rightarrow> Inl e
                | Inr ea \<Rightarrow>
                    if js_ge now (js_sub (ToNumber S ea) 60000) then Inr None
                    else Inr (Some token))))"

definition loadToken :: "(json \<Rightarrow> jsnum) \<Rightarrow> int \<Rightarrow> filesys \<Rightarrow> json option" where
  "loadToken S now fs =
     (case loadToken_body S now fs of Inl e \<Rightarrow> None | Inr r \<Rightarrow> r)"

text \<open>
  The second version in \<open>moneris-cli-no-postman.ts\<close> (general API knowledge) and the one
  of \<open>moneris-cli.ts\<close> (Postman context) compare with \<open>expires_at\<close> itself.
\<close>

definition loadToken_general_body :: "(json \<Rightarrow> jsnum) \<Rightarrow> int \<Rightarrow> filesys \<Rightarrow> exn + json option" where
  "loadToken_general_body S now fs =
     (if \<not> existsSync_TOKEN_FILE fs then Inr None
      else case readFileSync fs of
        Inl e \<Rightarrow> Inl e
      | Inr d \<Rightarrow>
          (case JSON_parse d of
             Inl e \<Rightarrow> Inl e
           | Inr token \<Rightarrow>
               (case get_prop token ''expires_at'' of
                  Inl e \<Rightarrow> Inl e
                | Inr ea \<Rightarrow>
                    if js_ge now (ToNumber S ea) then Inr None
                    else Inr (Some token))))"

definition loadToken_general :: "(json \<Rightarrow> jsnum) \<Rightarrow> int \<Rightarrow> filesys \<Rightarrow> json option" where
  "loadToken_general S now fs =
     (case loadToken_general_body S now fs of Inl e \<Rightarrow> None | Inr r \<Rightarrow> r)"

definition loadToken_postman_body :: "(json \<Rightarrow> jsnum) \<Rightarrow> int \<Rightarrow> filesys \<Rightarrow> exn + json option" where
  "loadToken_postman_body S now fs =
     (if \<not> existsSync_TOKEN_FILE fs then Inr None
      else case readFileSync fs of
        Inl e \<Rightarrow> Inl e
      | Inr d \<Rightarrow>
          (case JSON_parse d of
             Inl e \<Rightarrow> Inl e
           | Inr token \<Rightarrow>
               (case get_prop token ''expires_at'' of
                  Inl e \<Rightarrow> Inl e
                | Inr ea \<Rightarrow>
                    if js_ge now (ToNumber S ea) then Inr None
                    else Inr (Some token))))"

definition loadToken_postman :: "(json \<Rightarrow> jsnum) \<Rightarrow> int \<Rightarrow> filesys \<Rightarrow> json option" where
  "loadToken_postman S now fs =
     (case loadToken_postman_body S now fs of Inl e \<Rightarrow> None | Inr r \<Rightarrow> r)"

section \<open>Console, network and configuration\<close>

text \<open>
  What a command does that can be seen from outside, in order. \<open>ConsoleError\<close> and
  \<open>ConsoleLog\<close> carry the text without its colour, its leading line break and its
  pictogram. \<open>Report\<close> stands for the lines the reporting code prints (progress lines
  and the rendering of a response); \<open>ErrorDetails\<close> for the lines \<open>handleError\<close>
  chooses by the kind of error. A \<open>Request\<close> has its method, the base URL, the path
  and the value interpolated after \<open>Bearer\<close> in the Authorization header.
  \<open>process.exit\<close> ends the process: nothing follows a \<open>ProcessExit\<close>.
\<close>

datatype http_method = GET | POST

datatype event =
    ConsoleError string
  | ConsoleLog string
  | ErrorDetails exn
  | Report
  | Request http_method "string option" string "json option"
  | ProcessExit int

fun is_Request :: "event \<Rightarrow> bool" where
  "is_Request (Request m b p a) = True"
| "is_Request ev = False"

definition requests :: "event list \<Rightarrow> event list" where
  "requests evs = filter is_Request evs"

definition handleError :: "exn \<Rightarrow> string \<Rightarrow> event list" where
  "handleError e ctxt = [ConsoleError (ctxt @ '' failed''), ErrorDetails e, ProcessExit 1]"

record process_env =
  MONERIS_CLIENT_ID :: "string option"
  MONERIS_CLIENT_SECRET :: "string option"
  MONERIS_MERCHANT_ID :: "string option"
  MONERIS_ENV :: "string option"
  MONERIS_API_VERSION :: "string option"

text \<open>\<open>x || d\<close> and \<open>!x\<close> on an environment variable: unset and empty are falsy.\<close>

fun str_or :: "string option \<Rightarrow> string \<Rightarrow> string" where
  "str_or None d = d"
| "str_or (Some s) d = (if s = [] then d else s)"

fun str_not :: "string option \<Rightarrow> bool" where
  "str_not None = True"
| "str_not (Some s) = (s = [])"

text \<open>
  The table of base URLs, read at the name in \<open>MONERIS_ENV\<close>: any name but the two gives
  \<open>undefined\<close> (names that every object inherits, such as \<open>constructor\<close>, are left out).
\<close>

definition MONERIS_URLS :: "string \<Rightarrow> string option" where
  "MONERIS_URLS e =
     (if e = ''sandbox'' then Some ''https://api.sb.moneris.io''
      else if e = ''production'' then Some ''https://api.moneris.io''
      else None)"

record MonerisConfig =
  clientId :: string
  clientSecret :: string
  merchantId :: string
  baseUrl :: "string option"
  apiVersion :: string
  environment :: string

text \<open>
  \<open>getConfig\<close> of the three files. A missing credential prints the list of variables and
  exits with status 1 (\<open>Inl\<close>, the events up to the exit). The first file has no
  \<open>apiVersion\<close> and the second neither that nor \<open>merchantId\<close>: the record holds the
  empty string there, and nothing reads it.
\<close>

definition getConfig :: "process_env \<Rightarrow> event list + MonerisConfig" where
  "getConfig env =
     (if str_not (MONERIS_CLIENT_ID env) \<or> str_not (MONERIS_CLIENT_SECRET env)
         \<or> str_not (MONERIS_MERCHANT_ID env)
      then Inl [ConsoleError ''Missing credentials'',
                ConsoleLog ''Please set the following environment variables:'',
                ConsoleLog ''  MONERIS_CLIENT_ID'',
                ConsoleLog ''  MONERIS_CLIENT_SECRET'',
                ConsoleLog ''  MONERIS_MERCHANT_ID'',
                ConsoleLog ''  MONERIS_ENV (optional: sandbox|production, default: sandbox)'',
                ProcessExit 1]
      else Inr \<lparr>clientId = str_or (MONERIS_CLIENT_ID env) [],
                clientSecret = str_or (MONERIS_CLIENT_SECRET env) [],
                merchantId = str_or (MONERIS_MERCHANT_ID env) [],
                baseUrl = MONERIS_URLS (str_or (MONERIS_ENV env) ''sandbox''),
                apiVersion = [],
                environment = str_or (MONERIS_ENV env) ''sandbox''\<rparr>)"

definition getConfig_general :: "process_env \<Rightarrow> event list + MonerisConfig" where
  "getConfig_general env =
     (if str_not (MONERIS_CLIENT_ID env) \<or> str_not (MONERIS_CLIENT_SECRET env)
      then Inl [ConsoleError ''Missing credentials'',
                ConsoleLog ''Please set the following environment variables:'',
                ConsoleLog ''  MONERIS_CLIENT_ID'',
                ConsoleLog ''  MONERIS_CLIENT_SECRET'',
                ConsoleLog ''  MONERIS_ENV (optional: sandbox|production, default: sandbox)'',
                ProcessExit 1]
      else Inr \<lparr>clientId = str_or (MONERIS_CLIENT_ID env) [],
                clientSecret = str_or (MONERIS_CLIENT_SECRET env) [],
                merchantId = [],
                baseUrl = MONERIS_URLS (str_or (MONERIS_ENV env) ''sandbox''),
                apiVersion = [],
                environment = str_or (MONERIS_ENV env) ''sandbox''\<rparr>)"

definition getConfig_postman :: "process_env \<Rightarrow> event list + MonerisConfig" where
  "getConfig_postman env =
     (if str_not (MONERIS_CLIENT_ID env) \<or> str_not (MONERIS_CLIENT_SECRET env)
      then Inl [ConsoleError ''Missing credentials'',
                ConsoleLog ''Please set the following environment variables:'',
                ConsoleLog ''  MONERIS_CLIENT_ID'',
                ConsoleLog ''  MONERIS_CLIENT_SECRET'',
                ConsoleLog ''  MONERIS_MERCHANT_ID (optional, default: 0123456789123)'',
                ConsoleLog ''  MONERIS_ENV (optional: sandbox|production, default: sandbox)'',
                ConsoleLog ''  MONERIS_API_VERSION (optional, default: 2025-08-14)'',
                ProcessExit 1]
      else Inr \<lparr>clientId = str_or (MONERIS_CLIENT_ID env) [],
                clientSecret = str_or (MONERIS_CLIENT_SECRET env) [],
                merchantId = str_or (MONERIS_MERCHANT_ID env) ''0123456789123'',
                baseUrl = MONERIS_URLS (str_or (MONERIS_ENV env) ''sandbox''),
                apiVersion = str_or (MONERIS_API_VERSION env) ''2025-08-14'',
                environment = str_or (MONERIS_ENV env) ''sandbox''\<rparr>)"

section \<open>authenticate\<close>

text \<open>
  The numbers of \<open>authenticate\<close> are doubles: \<open>NaN\<close>, an infinity (\<open>Infinite True\<close> the
  positive one) or a finite double, here always a whole number and held by its exact
  value. \<open>fl n\<close> is the double that the exact result \<open>n\<close> of an operation is rounded
  to: \<open>n\<close> itself up to \<open>2 ^ 53\<close> in magnitude, else the nearest number with 53
  significant bits (a tie goes to the even one), and an infinity from \<open>2 ^ 1024\<close> on.
  \<open>bits n\<close> is the length of a positive \<open>n\<close> in binary.
\<close>

datatype double = NotANumber | Infinite bool | Finite int

function bits :: "int \<Rightarrow> nat" where
  "bits n = (if n \<le> 0 then 0 else Suc (bits (n div 2)))"
  by pat_completeness auto
termination
  by (relation "measure nat") auto

declare bits.simps [simp del]

definition fl :: "int \<Rightarrow> double" where
  "fl n =
     (if \<bar>n\<bar> \<le> 2 ^ 53 then Finite n
      else
        let k = bits \<bar>n\<bar> - 53;
            q = \<bar>n\<bar> div 2 ^ k;
            r = \<bar>n\<bar> mod 2 ^ k;
            q' = (if 2 ^ k < 2 * r \<or> (2 * r = 2 ^ k \<and> odd q) then q + 1 else q);
            m = q' * 2 ^ k
        in if 2 ^ 1024 \<le> m then Infinite (0 \<le> n)
           else Finite (if 0 \<le> n then m else - m))"

text \<open>\<open>x || d\<close>: \<open>NaN\<close> and zero are falsy, every other number is kept.\<close>

fun js_or :: "double \<Rightarrow> int \<Rightarrow> double" where
  "js_or NotANumber d = Finite d"
| "js_or (Infinite s) d = Infinite s"
| "js_or (Finite n) d = (if n = 0 then Finite d else Finite n)"

text \<open>\<open>x * k\<close> and \<open>a + y\<close>, with \<open>k\<close> and \<open>a\<close> finite.\<close>

fun js_times :: "double \<Rightarrow> int \<Rightarrow> double" where
  "js_times NotANumber k = NotANumber"
| "js_times (Infinite s) k = (if k = 0 then NotANumber else Infinite (s = (0 < k)))"
| "js_times (Finite n) k = fl (n * k)"

fun js_plus :: "int \<Rightarrow> double \<Rightarrow> double" where
  "js_plus a NotANumber = NotANumber"
| "js_plus a (Infinite s) = Infinite s"
| "js_plus a (Finite m) = fl (a + m)"

text \<open>
  The body of the token endpoint's answer, as the \<open>AuthToken\<close> interface types the
  fields read from it: \<open>access_token\<close> a string, \<open>token_type\<close> a string or missing,
  and \<open>parsed_expires_in\<close> the value of \<open>parseInt(response.data.expires_in)\<close>: \<open>NaN\<close>,
  a whole number, or an infinity when the digits are too many for a double.
\<close>

record token_response =
  resp_access_token :: string
  resp_token_type :: "string option"
  parsed_expires_in :: double

text \<open>
  The object literal of \<open>authenticate\<close>, field by field; \<open>now\<close> is its one reading of
  \<open>Date.now()\<close>.
\<close>

record token_literal =
  lit_access_token :: string
  lit_token_type :: string
  lit_expires_in :: double
  lit_expires_at :: double

definition new_token :: "int \<Rightarrow> token_response \<Rightarrow> token_literal" where
  "new_token now r =
     \<lparr>lit_access_token = resp_access_token r,
      lit_token_type = str_or (resp_token_type r) ''Bearer'',
      lit_expires_in = js_or (parsed_expires_in r) 3600,
      lit_expires_at = js_plus now (js_times (js_or (parsed_expires_in r) 3600) 1000)\<rparr>"

text \<open>
  \<open>JSON.stringify\<close> writes a finite number as it is and \<open>null\<close> for \<open>NaN\<close> and the
  infinities. A literal whose two numbers are finite is an \<open>AuthToken\<close> of the store.
\<close>

fun double_json :: "double \<Rightarrow> json" where
  "double_json (Finite n) = JNum n"
| "double_json d = JNull"

definition literal_json :: "token_literal \<Rightarrow> json" where
  "literal_json l =
     JObj [(''access_token'', JStr (lit_access_token l)),
           (''token_type'', JStr (lit_token_type l)),
           (''expires_in'', double_json (lit_expires_in l)),
           (''expires_at'', double_json (lit_expires_at l))]"

definition as_AuthToken :: "token_literal \<Rightarrow> AuthToken option" where
  "as_AuthToken l =
     (case lit_expires_in l of
        Finite a \<Rightarrow>
          (case lit_expires_at l of
             Finite b \<Rightarrow>
               Some \<lparr>access_token = lit_access_token l, token_type = lit_token_type l,
                     expires_in = a, expires_at = b\<rparr>
           | NotANumber \<Rightarrow> None
           | Infinite s \<Rightarrow> None)
      | NotANumber \<Rightarrow> None
      | Infinite s \<Rightarrow> None)"

text \<open>
  \<open>saveToken(token)\<close> as \<open>authenticate\<close> calls it, on the literal: \<open>saveToken\<close> of the
  store when the numbers are finite, and otherwise the same two steps with the text
  that \<open>JSON.stringify\<close> gives for the literal.
\<close>

definition saveToken_literal :: "token_literal \<Rightarrow> filesys \<Rightarrow> exn + filesys" where
  "saveToken_literal l fs =
     (case as_AuthToken l of
        Some token \<Rightarrow> saveToken token fs
      | None \<Rightarrow>
          (case ensureConfigDir fs of
             Inl e \<Rightarrow> Inl e
           | Inr fs1 \<Rightarrow> writeFileSync fs1 (JSON_stringify (literal_json l))))"

text \<open>
  \<open>authenticate\<close> of the first file. \<open>http\<close> is what \<open>axios.post\<close> does: it throws
  (\<open>Inl\<close>) or answers. Both the request and \<open>saveToken\<close> stand inside the \<open>try\<close>, whose
  \<open>catch\<close> is \<open>handleError\<close>. The result is the events and the file system afterwards
  (\<open>None\<close> after a failed \<open>saveToken\<close>).
\<close>

definition authenticate ::
  "process_env \<Rightarrow> int \<Rightarrow> exn + token_response \<Rightarrow> filesys \<Rightarrow> event list \<times> filesys option" where
  "authenticate env now http fs =
     (case getConfig env of
        Inl evs \<Rightarrow> (evs, Some fs)
      | Inr config \<Rightarrow>
          (case http of
             Inl e \<Rightarrow>
               ([Report, Request POST (baseUrl config) ''/oauth2/token'' None]
                  @ handleError e ''Authentication'', Some fs)
           | Inr r \<Rightarrow>
               (case saveToken_literal (new_token now r) fs of
                  Inl e \<Rightarrow>
                    ([Report, Request POST (baseUrl config) ''/oauth2/token'' None]
                       @ handleError e ''Authentication'', None)
                | Inr fs' \<Rightarrow>
                    ([Report, Request POST (baseUrl config) ''/oauth2/token'' None, Report],
                     Some fs'))))"

section \<open>The commands that need a token\<close>

definition not_authenticated :: "string \<Rightarrow> event list" where
  "not_authenticated prog =
     [ConsoleError ''Not authenticated'',
      ConsoleLog (''Please run: '' @ prog @ '' auth''),
      ProcessExit 1]"

text \<open>
  The \<open>try\<close> block the commands share in shape: build the client from
  \<open>token.access_token\<close>, send one request, print the answer; every exception goes to
  \<open>handleError\<close>. The \<open>Report\<close> that a command prints between its guard and this
  block stands for lines that are taken to print: a currency code that \<open>formatCurrency\<close>
  refuses would raise there, before the \<open>try\<close>, and is not modelled.
\<close>

definition api_call ::
  "string \<Rightarrow> http_method \<Rightarrow> string option \<Rightarrow> string \<Rightarrow> json \<Rightarrow> exn + unit \<Rightarrow> event list" where
  "api_call ctxt m base path token http =
     (case get_prop token ''access_token'' of
        Inl e \<Rightarrow> handleError e ctxt
      | Inr bearer \<Rightarrow>
          Request m base path bearer #
            (case http of Inl e \<Rightarrow> handleError e ctxt | Inr u \<Rightarrow> [Report]))"

text \<open>First file: \<open>createPayment\<close>, \<open>getPayment\<close>, \<open>voidPayment\<close>.\<close>

definition createPayment ::
  "(json \<Rightarrow> jsnum) \<Rightarrow> process_env \<Rightarrow> int \<Rightarrow> filesys \<Rightarrow> exn + unit \<Rightarrow> event list" where
  "createPayment S env now fs http =
     (case getConfig env of
        Inl evs \<Rightarrow> evs
      | Inr config \<Rightarrow>
          (case loadToken S now fs of
             None \<Rightarrow> not_authenticated ''moneris-cli-no-postman''
           | Some token \<Rightarrow>
               if falsy token then not_authenticated ''moneris-cli-no-postman''
               else Report #
                 api_call ''Create payment'' POST (baseUrl config)
                   (''/merchants/'' @ merchantId config @ ''/payments'') token http))"

definition getPayment ::
  "(json \<Rightarrow> jsnum) \<Rightarrow> process_env \<Rightarrow> int \<Rightarrow> filesys \<Rightarrow> string \<Rightarrow> exn + unit \<Rightarrow> event list" where
  "getPayment S env now fs paymentId http =
     (case getConfig env of
        Inl evs \<Rightarrow> evs
      | Inr config \<Rightarrow>
          (case loadToken S now fs of
             None \<Rightarrow> not_authenticated ''moneris-cli-no-postman''
           | Some token \<Rightarrow>
               if falsy token then not_authenticated ''moneris-cli-no-postman''
               else Report #
                 api_call ''Get payment'' GET (baseUrl config)
                   (''/merchants/'' @ merchantId config @ ''/payments/'' @ paymentId) token http))"

definition voidPayment ::
  "(json \<Rightarrow> jsnum) \<Rightarrow> process_env \<Rightarrow> int \<Rightarrow> filesys \<Rightarrow> string \<Rightarrow> exn + unit \<Rightarrow> event list" where
  "voidPayment S env now fs paymentId http =
     (case getConfig env of
        Inl evs \<Rightarrow> evs
      | Inr config \<Rightarrow>
          (case loadToken S now fs of
             None \<Rightarrow> not_authenticated ''moneris-cli-no-postman''
           | Some token \<Rightarrow>
               if falsy token then not_authenticated ''moneris-cli-no-postman''
               else Report #
                 api_call ''Void payment'' POST (baseUrl config)
                   (''/merchants/'' @ merchantId config @ ''/payments/'' @ paymentId @ ''/void'')
                   token http))"

text \<open>Second file: \<open>createPayment\<close>, \<open>listPayments\<close>.\<close>

definition createPayment_general ::
  "(json \<Rightarrow> jsnum) \<Rightarrow> process_env \<Rightarrow> int \<Rightarrow> filesys \<Rightarrow> exn + unit \<Rightarrow> event list" where
  "createPayment_general S env now fs http =
     (case getConfig_general env of
        Inl evs \<Rightarrow> evs
      | Inr config \<Rightarrow>
          (case loadToken_general S now fs of
             None \<Rightarrow> not_authenticated ''moneris-cli-no-postman''
           | Some token \<Rightarrow>
               if falsy token then not_authenticated ''moneris-cli-no-postman''
               else Report #
                 api_call ''Create payment'' POST (baseUrl config) ''/payments'' token http))"

definition listPayments_general ::
  "(json \<Rightarrow> jsnum) \<Rightarrow> process_env \<Rightarrow> int \<Rightarrow> filesys \<Rightarrow> exn + unit \<Rightarrow> event list" where
  "listPayments_general S env now fs http =
     (case getConfig_general env of
        Inl evs \<Rightarrow> evs
      | Inr config \<Rightarrow>
          (case loadToken_general S now fs of
             None \<Rightarrow> not_authenticated ''moneris-cli-no-postman''
           | Some token \<Rightarrow>
               if falsy token then not_authenticated ''moneris-cli-no-postman''
               else Report #
                 api_call ''List payments'' GET (baseUrl config) ''/payments'' token http))"

text \<open>Third file: \<open>listPayments\<close>, \<open>createPayment\<close>.\<close>

definition listPayments_postman ::
  "(json \<Rightarrow> jsnum) \<Rightarrow> process_env \<Rightarrow> int \<Rightarrow> filesys \<Rightarrow> exn + unit \<Rightarrow> event list" where
  "listPayments_postman S env now fs http =
     (case getConfig_postman env of
        Inl evs \<Rightarrow> evs
      | Inr config \<Rightarrow>
          (case loadToken_postman S now fs of
             None \<Rightarrow> not_authenticated ''moneris-cli''
           | Some token \<Rightarrow>
               if falsy token then not_authenticated ''moneris-cli''
               else Report #
                 api_call ''List payments'' GET (baseUrl config) ''/payments'' token http))"

text \<open>
  \<open>createPayment\<close> of the third file checks the amount after the token;
  \<open>invalid_amount\<close> is the value of \<open>isNaN(amount) || amount <= 0\<close>, a test on a
  floating-point number.
\<close>

definition createPayment_postman ::
  "(json \<Rightarrow> jsnum) \<Rightarrow> process_env \<Rightarrow> int \<Rightarrow> filesys \<Rightarrow> bool \<Rightarrow> exn + unit \<Rightarrow> event list" where
  "createPayment_postman S env now fs invalid_amount http =
     (case getConfig_postman env of
        Inl evs \<Rightarrow> evs
      | Inr config \<Rightarrow>
          (case loadToken_postman S now fs of
             None \<Rightarrow> not_authenticated ''moneris-cli''
           | Some token \<Rightarrow>
               if falsy token then not_authenticated ''moneris-cli''
               else if invalid_amount
               then [ConsoleError ''Invalid amount'',
                     ConsoleLog ''Amount must be a positive number'',
                     ConsoleLog ''Example: --amount 10.00'',
                     ProcessExit 1]
               else Report #
                 api_call ''Create payment'' POST (baseUrl config) ''/payments'' token http))"

section \<open>Facts about the store\<close>

lemma saveToken_unfold:
  "saveToken t fs =
     (if \<not> config_dir fs \<and> mkdir_fails fs \<noteq> None then Inl (FsError (the (mkdir_fails fs)))
      else if write_fails fs \<noteq> None then Inl (FsError (the (write_fails fs)))
      else Inr (fs\<lparr>config_dir := True, token_file := Some (Json (AuthToken_json t))\<rparr>))"
  by (auto simp: saveToken_def ensureConfigDir_def existsSync_CONFIG_DIR_def mkdirSync_def
      writeFileSync_def JSON_stringify_def split: option.splits)

lemma saveToken_Inr:
  "saveToken t fs = Inr fs' \<Longrightarrow>
     fs' = fs\<lparr>config_dir := True, token_file := Some (Json (AuthToken_json t))\<rparr>
     \<and> write_fails fs = None \<and> (config_dir fs \<or> mkdir_fails fs = None)"
  by (auto simp: saveToken_unfold split: if_splits)

lemma expires_at_prop:
  "get_prop (AuthToken_json t) ''expires_at'' = Inr (Some (JNum (expires_at t)))"
  by (simp add: AuthToken_json_def)

lemma loadToken_of_token:
  "token_file fs = Some (Json (AuthToken_json t)) \<Longrightarrow> read_fails fs = None \<Longrightarrow>
   loadToken S now fs = (if expires_at t - 60000 \<le> now then None else Some (AuthToken_json t))"
  by (simp add: loadToken_def loadToken_body_def existsSync_TOKEN_FILE_def readFileSync_def
      expires_at_prop)

lemma loadToken_expired:
  "token_file fs = Some (Json (AuthToken_json t)) \<Longrightarrow> expires_at t - 60000 \<le> now \<Longrightarrow>
   loadToken S now fs = None"
  by (simp add: loadToken_def loadToken_body_def existsSync_TOKEN_FILE_def readFileSync_def
      expires_at_prop split: option.splits)

lemma loadToken_general_of_token:
  "token_file fs = Some (Json (AuthToken_json t)) \<Longrightarrow> read_fails fs = None \<Longrightarrow>
   loadToken_general S now fs = (if expires_at t \<le> now then None else Some (AuthToken_json t))"
  by (simp add: loadToken_general_def loadToken_general_body_def existsSync_TOKEN_FILE_def
      readFileSync_def expires_at_prop)

lemma loadToken_postman_of_token:
  "token_file fs = Some (Json (AuthToken_json t)) \<Longrightarrow> read_fails fs = None \<Longrightarrow>
   loadToken_postman S now fs = (if expires_at t \<le> now then None else Some (AuthToken_json t))"
  by (simp add: loadToken_postman_def loadToken_postman_body_def existsSync_TOKEN_FILE_def
      readFileSync_def expires_at_prop)

text \<open>Whole numbers up to \<open>2 ^ 53\<close> in magnitude are doubles: nothing is rounded.\<close>

lemma fl_exact: "\<bar>n\<bar> \<le> 9007199254740992 \<Longrightarrow> fl n = Finite n"
  by (simp add: fl_def)

text \<open>For a literal with finite numbers the text written is the token's.\<close>

lemma as_AuthToken_json: "as_AuthToken l = Some t \<Longrightarrow> literal_json l = AuthToken_json t"
  by (auto simp: as_AuthToken_def literal_json_def AuthToken_json_def split: double.splits)

lemma saveToken_literal_unfold:
  "saveToken_literal l fs =
     (if \<not> config_dir fs \<and> mkdir_fails fs \<noteq> None then Inl (FsError (the (mkdir_fails fs)))
      else if write_fails fs \<noteq> None then Inl (FsError (the (write_fails fs)))
      else Inr (fs\<lparr>config_dir := True, token_file := Some (Json (literal_json l))\<rparr>))"
proof (cases "as_AuthToken l")
  case None
  then show ?thesis
    by (auto simp: saveToken_literal_def ensureConfigDir_def existsSync_CONFIG_DIR_def
        mkdirSync_def writeFileSync_def JSON_stringify_def split: option.splits)
next
  case (Some t)
  then show ?thesis
    by (simp add: saveToken_literal_def saveToken_unfold as_AuthToken_json)
qed

text \<open>Whether a save fails, and how, does not depend on what is saved.\<close>

lemma saveToken_literal_fails:
  "saveToken t fs = Inl x \<Longrightarrow> saveToken_literal l fs = Inl x"
  by (auto simp: saveToken_unfold saveToken_literal_unfold split: if_splits)

text \<open>A token can be read back from its object: the object determines the four fields.\<close>

lemma AuthToken_json_inj: "AuthToken_json a = AuthToken_json b \<Longrightarrow> a = b"
  by (cases a, cases b) (simp add: AuthToken_json_def)

section \<open>Expiry with the safety margin\<close>

text \<open>
  Claim C1. A token that was issued at time \<open>T\<close> with a lifetime of \<open>expires_in\<close> seconds
  (so that \<open>expires_at = T + expires_in * 1000\<close>, in milliseconds) and saved is no longer
  returned by \<open>loadToken\<close> once the clock has reached \<open>T + expires_in * 1000 - 60000\<close>,
  and is returned at every earlier clock value, provided the file can be read. With
  \<open>T = 0\<close> and \<open>expires_in = 3600\<close> that is: returned at second 3539, absent at
  second 3541.
\<close>

theorem loadToken_expiry_margin:
  assumes inv: "expires_at t = T + expires_in t * 1000"
    and saved: "saveToken t fs = Inr fs'"
  shows "(T + expires_in t * 1000 - 60000 \<le> now \<longrightarrow> loadToken S now fs' = None)
       \<and> (now < T + expires_in t * 1000 - 60000 \<and> read_fails fs = None
            \<longrightarrow> loadToken S now fs' = Some (AuthToken_json t))"
proof -
  from saved have fs': "fs' = fs\<lparr>config_dir := True, token_file := Some (Json (AuthToken_json t))\<rparr>"
    by (simp add: saveToken_Inr)
  have slot: "token_file fs' = Some (Json (AuthToken_json t))" by (simp add: fs')
  have rd: "read_fails fs' = read_fails fs" by (simp add: fs')
  show ?thesis
    using loadToken_expired [OF slot, of now S] loadToken_of_token [OF slot, of S now] inv rd
    by auto
qed

theorem loadToken_expiry_margin_scenario:
  "expires_at \<lparr>access_token = ''tok'', token_type = ''Bearer'', expires_in = 3600, expires_at = 3600000\<rparr>
     = 0 + expires_in \<lparr>access_token = ''tok'', token_type = ''Bearer'', expires_in = 3600, expires_at = 3600000\<rparr> * 1000
   \<and> saveToken \<lparr>access_token = ''tok'', token_type = ''Bearer'', expires_in = 3600, expires_at = 3600000\<rparr>
        \<lparr>config_dir = False, token_file = None, mkdir_fails = None, write_fails = None, read_fails = None\<rparr>
      = Inr \<lparr>config_dir = True,
             token_file = Some (Json (AuthToken_json
               \<lparr>access_token = ''tok'', token_type = ''Bearer'', expires_in = 3600, expires_at = 3600000\<rparr>)),
             mkdir_fails = None, write_fails = None, read_fails = None\<rparr>
   \<and> loadToken (\<lambda>v. NaN) 3539000
        \<lparr>config_dir = True,
             token_file = Some (Json (AuthToken_json
               \<lparr>access_token = ''tok'', token_type = ''Bearer'', expires_in = 3600, expires_at = 3600000\<rparr>)),
             mkdir_fails = None, write_fails = None, read_fails = None\<rparr>
      = Some (AuthToken_json
               \<lparr>access_token = ''tok'', token_type = ''Bearer'', expires_in = 3600, expires_at = 3600000\<rparr>)
   \<and> loadToken (\<lambda>v. NaN) 3541000
        \<lparr>config_dir = True,
             token_file = Some (Json (AuthToken_json
               \<lparr>access_token = ''tok'', token_type = ''Bearer'', expires_in = 3600, expires_at = 3600000\<rparr>)),
             mkdir_fails = None, write_fails = None, read_fails = None\<rparr>
      = None"
proof -
  let ?t = "\<lparr>access_token = ''tok'', token_type = ''Bearer'', expires_in = 3600, expires_at = 3600000\<rparr>"
  let ?fs = "\<lparr>config_dir = False, token_file = None, mkdir_fails = None, write_fails = None, read_fails = None\<rparr>"
  let ?fs' = "\<lparr>config_dir = True, token_file = Some (Json (AuthToken_json ?t)),
               mkdir_fails = None, write_fails = None, read_fails = None\<rparr>"
  have inv: "expires_at ?t = 0 + expires_in ?t * 1000" by simp
  have saved: "saveToken ?t ?fs = Inr ?fs'" by (simp add: saveToken_unfold)
  show ?thesis
    using inv saved loadToken_expiry_margin [OF inv saved, of 3539000 "\<lambda>v. NaN"]
      loadToken_expiry_margin [OF inv saved, of 3541000 "\<lambda>v. NaN"]
    by simp
qed

section \<open>Round trip\<close>

text \<open>
  Claim C2. For every token, \<open>saveToken\<close> followed by \<open>loadToken\<close> at a clock value
  before \<open>expires_at - 60000\<close> returns the object of the saved token, unchanged
  (the file being readable).
\<close>

theorem save_load_roundtrip:
  assumes saved: "saveToken t fs = Inr fs'"
    and readable: "read_fails fs = None"
    and fresh: "now < expires_at t - 60000"
  shows "loadToken S now fs' = Some (AuthToken_json t)"
proof -
  from saved have fs': "fs' = fs\<lparr>config_dir := True, token_file := Some (Json (AuthToken_json t))\<rparr>"
    by (simp add: saveToken_Inr)
  have slot: "token_file fs' = Some (Json (AuthToken_json t))" by (simp add: fs')
  have rd: "read_fails fs' = None" by (simp add: fs' readable)
  show ?thesis
    using loadToken_of_token [OF slot rd, of S now] fresh by simp
qed

theorem save_load_roundtrip_witness:
  "saveToken \<lparr>access_token = ''abc'', token_type = ''Bearer'', expires_in = 3600, expires_at = 5000000\<rparr>
     \<lparr>config_dir = True, token_file = Some Garbage, mkdir_fails = None, write_fails = None, read_fails = None\<rparr>
   = Inr \<lparr>config_dir = True,
          token_file = Some (Json (AuthToken_json
            \<lparr>access_token = ''abc'', token_type = ''Bearer'', expires_in = 3600, expires_at = 5000000\<rparr>)),
          mkdir_fails = None, write_fails = None, read_fails = None\<rparr>
   \<and> loadToken (\<lambda>v. NaN) 1400000
       \<lparr>config_dir = True,
          token_file = Some (Json (AuthToken_json
            \<lparr>access_token = ''abc'', token_type = ''Bearer'', expires_in = 3600, expires_at = 5000000\<rparr>)),
          mkdir_fails = None, write_fails = None, read_fails = None\<rparr>
     = Some (JObj [(''access_token'', JStr ''abc''), (''token_type'', JStr ''Bearer''),
                   (''expires_in'', JNum 3600), (''expires_at'', JNum 5000000)])"
proof -
  let ?t = "\<lparr>access_token = ''abc'', token_type = ''Bearer'', expires_in = 3600, expires_at = 5000000\<rparr>"
  let ?fs = "\<lparr>config_dir = True, token_file = Some Garbage, mkdir_fails = None,
              write_fails = None, read_fails = None\<rparr>"
  let ?fs' = "\<lparr>config_dir = True, token_file = Some (Json (AuthToken_json ?t)),
               mkdir_fails = None, write_fails = None, read_fails = None\<rparr>"
  have saved: "saveToken ?t ?fs = Inr ?fs'" by (simp add: saveToken_unfold)
  have readable: "read_fails ?fs = None" by simp
  have fresh: "1400000 < expires_at ?t - 60000" by simp
  show ?thesis
    using saved save_load_roundtrip [OF saved readable fresh, of "\<lambda>v. NaN"]
    by (simp add: AuthToken_json_def)
qed

section \<open>Missing, corrupt and unreadable slots\<close>

text \<open>
  Claim C3. \<open>loadToken\<close> returns \<open>null\<close> when the file does not exist, and when it
  exists but \<open>JSON.parse\<close> rejects its text: the SyntaxError raised in the \<open>try\<close> block
  does not leave the function. Both results are the one an expired token gives.
\<close>

theorem loadToken_absent_missing_or_corrupt:
  "(token_file fs = None \<longrightarrow>
      loadToken_body S now fs = Inr None \<and> loadToken S now fs = None)
   \<and> (token_file fs = Some Garbage \<longrightarrow>
      (\<exists>e. loadToken_body S now fs = Inl e) \<and> loadToken S now fs = None)
   \<and> (token_file fs = Some Garbage \<and> read_fails fs = None \<longrightarrow>
      loadToken_body S now fs = Inl SyntaxError)
   \<and> (token_file fs = Some (Json (AuthToken_json t)) \<and> expires_at t - 60000 \<le> now \<longrightarrow>
      loadToken S now fs = None)"
  by (auto simp: loadToken_def loadToken_body_def existsSync_TOKEN_FILE_def readFileSync_def
      expires_at_prop split: option.splits)

theorem loadToken_absent_missing_or_corrupt_witness:
  "loadToken (\<lambda>v. NaN) 1000
     \<lparr>config_dir = False, token_file = None, mkdir_fails = None, write_fails = None, read_fails = None\<rparr>
     = None
   \<and> loadToken_body (\<lambda>v. NaN) 1000
     \<lparr>config_dir = True, token_file = Some Garbage, mkdir_fails = None, write_fails = None, read_fails = None\<rparr>
     = Inl SyntaxError
   \<and> loadToken (\<lambda>v. NaN) 1000
     \<lparr>config_dir = True, token_file = Some Garbage, mkdir_fails = None, write_fails = None, read_fails = None\<rparr>
     = None
   \<and> loadToken (\<lambda>v. NaN) 1000
     \<lparr>config_dir = True, token_file = Some (Json (AuthToken_json
        \<lparr>access_token = ''abc'', token_type = ''Bearer'', expires_in = 1, expires_at = 1000\<rparr>)),
      mkdir_fails = None, write_fails = None, read_fails = None\<rparr>
     = None"
  using
    loadToken_absent_missing_or_corrupt
      [of "\<lparr>config_dir = False, token_file = None, mkdir_fails = None, write_fails = None, read_fails = None\<rparr>"
      "\<lambda>v. NaN" 1000]
    loadToken_absent_missing_or_corrupt
      [of "\<lparr>config_dir = True, token_file = Some Garbage, mkdir_fails = None, write_fails = None, read_fails = None\<rparr>"
      "\<lambda>v. NaN" 1000]
    loadToken_absent_missing_or_corrupt
      [of "\<lparr>config_dir = True, token_file = Some (Json (AuthToken_json
        \<lparr>access_token = ''abc'', token_type = ''Bearer'', expires_in = 1, expires_at = 1000\<rparr>)),
      mkdir_fails = None, write_fails = None, read_fails = None\<rparr>"
      "\<lambda>v. NaN" 1000 "\<lparr>access_token = ''abc'', token_type = ''Bearer'', expires_in = 1, expires_at = 1000\<rparr>"]
  by simp

text \<open>
  Claim C4 asks that a failing read (permission denied) reaches the caller as something
  other than the absent result. It does not: with a valid token in a file that cannot
  be read, the \<open>try\<close> block raises \<open>EACCES\<close> and \<open>loadToken\<close> returns \<open>null\<close>, the
  very result it gives when there is no file.
\<close>

theorem loadToken_read_denied_example:
  "loadToken_body (\<lambda>v. NaN) 1000
     \<lparr>config_dir = True, token_file = Some (Json (AuthToken_json
        \<lparr>access_token = ''abc'', token_type = ''Bearer'', expires_in = 3600, expires_at = 3601000\<rparr>)),
      mkdir_fails = None, write_fails = None, read_fails = Some EACCES\<rparr>
     = Inl (FsError EACCES)
   \<and> loadToken (\<lambda>v. NaN) 1000
     \<lparr>config_dir = True, token_file = Some (Json (AuthToken_json
        \<lparr>access_token = ''abc'', token_type = ''Bearer'', expires_in = 3600, expires_at = 3601000\<rparr>)),
      mkdir_fails = None, write_fails = None, read_fails = Some EACCES\<rparr>
     = None
   \<and> loadToken (\<lambda>v. NaN) 1000
     \<lparr>config_dir = True, token_file = None,
      mkdir_fails = None, write_fails = None, read_fails = None\<rparr>
     = None"
  by (simp add: loadToken_def loadToken_body_def existsSync_TOKEN_FILE_def readFileSync_def)

text \<open>
  Claim C4, as the code has it: whenever the file exists and reading it fails, with
  whatever error, the \<open>catch\<close> of \<open>loadToken\<close> turns the error into \<open>null\<close>, in all
  three versions. A storage error during a load is the absent result.
\<close>

theorem loadToken_swallows_read_errors:
  assumes "token_file fs = Some d" and "read_fails fs = Some e"
  shows "loadToken_body S now fs = Inl (FsError e) \<and> loadToken S now fs = None
       \<and> loadToken_general_body S now fs = Inl (FsError e) \<and> loadToken_general S now fs = None
       \<and> loadToken_postman_body S now fs = Inl (FsError e) \<and> loadToken_postman S now fs = None"
  using assms
  by (simp add: loadToken_def loadToken_body_def loadToken_general_def loadToken_general_body_def
      loadToken_postman_def loadToken_postman_body_def existsSync_TOKEN_FILE_def readFileSync_def)

theorem loadToken_swallows_read_errors_witness:
  "loadToken (\<lambda>v. NaN) 1000
     \<lparr>config_dir = True, token_file = Some Garbage,
      mkdir_fails = None, write_fails = None, read_fails = Some EIO\<rparr> = None
   \<and> loadToken_body (\<lambda>v. NaN) 1000
     \<lparr>config_dir = True, token_file = Some Garbage,
      mkdir_fails = None, write_fails = None, read_fails = Some EIO\<rparr> = Inl (FsError EIO)"
  using loadToken_swallows_read_errors [of "\<lparr>config_dir = True, token_file = Some Garbage,
      mkdir_fails = None, write_fails = None, read_fails = Some EIO\<rparr>" Garbage EIO "\<lambda>v. NaN" 1000]
  by simp

section \<open>Saving\<close>

text \<open>
  Claim C6. \<open>saveToken\<close> does not fail silently. When the directory is missing and cannot
  be made, or when the write is refused, the error leaves \<open>saveToken\<close> as an exception;
  when nothing fails, the directory exists afterwards and the one file holds the text
  of the token, its \<open>expires_at\<close> included. In \<open>authenticate\<close> the exception reaches
  \<open>handleError\<close>, which prints it and exits with status 1: a file system that refuses
  the save of a token refuses the one \<open>authenticate\<close> makes, whatever was answered.
\<close>

theorem saveToken_surfaces_failures:
  "(\<not> config_dir fs \<and> mkdir_fails fs = Some e \<longrightarrow> saveToken t fs = Inl (FsError e))
   \<and> ((config_dir fs \<or> mkdir_fails fs = None) \<and> write_fails fs = Some e
        \<longrightarrow> saveToken t fs = Inl (FsError e))
   \<and> ((config_dir fs \<or> mkdir_fails fs = None) \<and> write_fails fs = None
        \<longrightarrow> saveToken t fs
            = Inr (fs\<lparr>config_dir := True, token_file := Some (JSON_stringify (AuthToken_json t))\<rparr>))
   \<and> get_prop (AuthToken_json t) ''expires_at'' = Inr (Some (JNum (expires_at t)))
   \<and> (getConfig env = Inr config \<and> saveToken t fs = Inl x
        \<longrightarrow> authenticate env now (Inr r) fs
            = ([Report, Request POST (baseUrl config) ''/oauth2/token'' None,
                ConsoleError ''Authentication failed'', ErrorDetails x, ProcessExit 1], None))"
proof -
  have "authenticate env now (Inr r) fs
            = ([Report, Request POST (baseUrl config) ''/oauth2/token'' None,
                ConsoleError ''Authentication failed'', ErrorDetails x, ProcessExit 1], None)"
    if "getConfig env = Inr config" "saveToken t fs = Inl x"
    using that(1) saveToken_literal_fails [OF that(2), of "new_token now r"]
    by (simp add: authenticate_def handleError_def)
  then show ?thesis
    by (auto simp: saveToken_unfold expires_at_prop JSON_stringify_def)
qed

theorem saveToken_surfaces_failures_witness:
  "saveToken \<lparr>access_token = ''abc'', token_type = ''Bearer'', expires_in = 3600, expires_at = 3601000\<rparr>
     \<lparr>config_dir = True, token_file = None, mkdir_fails = None, write_fails = Some EACCES, read_fails = None\<rparr>
     = Inl (FsError EACCES)
   \<and> saveToken \<lparr>access_token = ''abc'', token_type = ''Bearer'', expires_in = 3600, expires_at = 3601000\<rparr>
     \<lparr>config_dir = False, token_file = None, mkdir_fails = Some EACCES, write_fails = None, read_fails = None\<rparr>
     = Inl (FsError EACCES)
   \<and> saveToken \<lparr>access_token = ''abc'', token_type = ''Bearer'', expires_in = 3600, expires_at = 3601000\<rparr>
     \<lparr>config_dir = False, token_file = None, mkdir_fails = None, write_fails = None, read_fails = None\<rparr>
     = Inr \<lparr>config_dir = True,
            token_file = Some (Json (JObj [(''access_token'', JStr ''abc''), (''token_type'', JStr ''Bearer''),
                   (''expires_in'', JNum 3600), (''expires_at'', JNum 3601000)])),
            mkdir_fails = None, write_fails = None, read_fails = None\<rparr>"
  using
    saveToken_surfaces_failures
      [of "\<lparr>config_dir = True, token_file = None, mkdir_fails = None, write_fails = Some EACCES, read_fails = None\<rparr>"
      EACCES "\<lparr>access_token = ''abc'', token_type = ''Bearer'', expires_in = 3600, expires_at = 3601000\<rparr>"]
    saveToken_surfaces_failures
      [of "\<lparr>config_dir = False, token_file = None, mkdir_fails = Some EACCES, write_fails = None, read_fails = None\<rparr>"
      EACCES "\<lparr>access_token = ''abc'', token_type = ''Bearer'', expires_in = 3600, expires_at = 3601000\<rparr>"]
    saveToken_surfaces_failures
      [of "\<lparr>config_dir = False, token_file = None, mkdir_fails = None, write_fails = None, read_fails = None\<rparr>"
      EACCES "\<lparr>access_token = ''abc'', token_type = ''Bearer'', expires_in = 3600, expires_at = 3601000\<rparr>"]
  by (simp add: JSON_stringify_def AuthToken_json_def)

text \<open>
  Claim C8. Two saves in a row leave the file system as the second save alone would
  have: the file holds the second token and nothing of the first, and \<open>loadToken\<close>
  answers from the second token only.
\<close>

theorem saveToken_overwrites:
  assumes first: "saveToken a fs = Inr fs1" and second: "saveToken b fs1 = Inr fs2"
  shows "saveToken b fs = Inr fs2
       \<and> token_file fs2 = Some (JSON_stringify (AuthToken_json b))
       \<and> (read_fails fs = None \<longrightarrow>
            loadToken S now fs2
              = (if expires_at b - 60000 \<le> now then None else Some (AuthToken_json b)))"
proof -
  note f1 = saveToken_Inr [OF first]
  note f2 = saveToken_Inr [OF second]
  have fs2: "fs2 = fs\<lparr>config_dir := True, token_file := Some (Json (AuthToken_json b))\<rparr>"
    using f1 f2 by simp
  have direct: "saveToken b fs = Inr fs2"
    using f1 fs2 by (auto simp: saveToken_unfold)
  have slot: "token_file fs2 = Some (Json (AuthToken_json b))" by (simp add: fs2)
  have rd: "read_fails fs2 = read_fails fs" by (simp add: fs2)
  show ?thesis
    using direct slot rd loadToken_of_token [OF slot, of S now]
    by (simp add: JSON_stringify_def)
qed

theorem saveToken_overwrites_witness:
  "saveToken \<lparr>access_token = ''A'', token_type = ''Bearer'', expires_in = 60, expires_at = 9000000\<rparr>
     \<lparr>config_dir = False, token_file = None, mkdir_fails = None, write_fails = None, read_fails = None\<rparr>
   = Inr \<lparr>config_dir = True,
          token_file = Some (Json (AuthToken_json
             \<lparr>access_token = ''A'', token_type = ''Bearer'', expires_in = 60, expires_at = 9000000\<rparr>)),
          mkdir_fails = None, write_fails = None, read_fails = None\<rparr>
   \<and> saveToken \<lparr>access_token = ''B'', token_type = ''Bearer'', expires_in = 3600, expires_at = 5000000\<rparr>
       \<lparr>config_dir = True,
          token_file = Some (Json (AuthToken_json
             \<lparr>access_token = ''A'', token_type = ''Bearer'', expires_in = 60, expires_at = 9000000\<rparr>)),
          mkdir_fails = None, write_fails = None, read_fails = None\<rparr>
   = Inr \<lparr>config_dir = True,
          token_file = Some (Json (AuthToken_json
             \<lparr>access_token = ''B'', token_type = ''Bearer'', expires_in = 3600, expires_at = 5000000\<rparr>)),
          mkdir_fails = None, write_fails = None, read_fails = None\<rparr>
   \<and> loadToken (\<lambda>v. NaN) 1400000
       \<lparr>config_dir = True,
          token_file = Some (Json (AuthToken_json
             \<lparr>access_token = ''B'', token_type = ''Bearer'', expires_in = 3600, expires_at = 5000000\<rparr>)),
          mkdir_fails = None, write_fails = None, read_fails = None\<rparr>
     = Some (JObj [(''access_token'', JStr ''B''), (''token_type'', JStr ''Bearer''),
                   (''expires_in'', JNum 3600), (''expires_at'', JNum 5000000)])"
proof -
  let ?a = "\<lparr>access_token = ''A'', token_type = ''Bearer'', expires_in = 60, expires_at = 9000000\<rparr>"
  let ?b = "\<lparr>access_token = ''B'', token_type = ''Bearer'', expires_in = 3600, expires_at = 5000000\<rparr>"
  let ?fs = "\<lparr>config_dir = False, token_file = None, mkdir_fails = None, write_fails = None, read_fails = None\<rparr>"
  let ?fs1 = "\<lparr>config_dir = True, token_file = Some (Json (AuthToken_json ?a)),
          mkdir_fails = None, write_fails = None, read_fails = None\<rparr>"
  let ?fs2 = "\<lparr>config_dir = True, token_file = Some (Json (AuthToken_json ?b)),
          mkdir_fails = None, write_fails = None, read_fails = None\<rparr>"
  have first: "saveToken ?a ?fs = Inr ?fs1" by (simp add: saveToken_unfold)
  have second: "saveToken ?b ?fs1 = Inr ?fs2" by (simp add: saveToken_unfold)
  show ?thesis
    using first second saveToken_overwrites [OF first second, of "\<lambda>v. NaN" 1400000]
    by (simp add: AuthToken_json_def JSON_stringify_def)
qed

section \<open>The token that authenticate builds\<close>

lemma bits_63_product: "bits 9007199254740991000 = 63"
  by (simp add: bits.simps)

lemma bits_63_sum: "bits 9007200954740990977 = 63"
  by (simp add: bits.simps)

lemma fl_product: "fl 9007199254740991000 = Finite 9007199254740990976"
  by (simp add: fl_def Let_def bits_63_product)

lemma fl_sum: "fl 9007200954740990977 = Finite 9007200954740990976"
  by (simp add: fl_def Let_def bits_63_sum)

text \<open>
  A \<open>parseInt\<close> that overflowed: both numbers of the literal are infinite, and the file
  gets \<open>null\<close> in their place.
\<close>

lemma new_token_infinite:
  "parsed_expires_in r = Infinite True \<Longrightarrow>
     lit_expires_in (new_token now r) = Infinite True
     \<and> lit_expires_at (new_token now r) = Infinite True
     \<and> get_prop (literal_json (new_token now r)) ''expires_at'' = Inr (Some JNull)"
  by (simp add: new_token_def literal_json_def)

text \<open>
  Claim C7 says that every token \<open>authenticate\<close> creates has
  \<open>expires_at = issuedAt + expires_in * 1000\<close>. The product and the sum are computed in
  doubles, so beyond \<open>2 ^ 53\<close> they are rounded: at clock 1700000000001 with
  \<open>parseInt\<close> giving 9007199254740991 the token keeps that \<open>expires_in\<close>, and the
  \<open>expires_at\<close> built and written to the file is 9007200954740990976, where the sum is
  9007200954740991001.
\<close>

theorem authenticate_rounded_expiry_example:
  "lit_expires_in (new_token 1700000000001
       \<lparr>resp_access_token = ''abc'', resp_token_type = Some ''Bearer'',
        parsed_expires_in = Finite 9007199254740991\<rparr>) = Finite 9007199254740991
   \<and> lit_expires_at (new_token 1700000000001
       \<lparr>resp_access_token = ''abc'', resp_token_type = Some ''Bearer'',
        parsed_expires_in = Finite 9007199254740991\<rparr>) = Finite 9007200954740990976
   \<and> (1700000000001 :: int) + 9007199254740991 * 1000 = 9007200954740991001
   \<and> snd (authenticate
        \<lparr>MONERIS_CLIENT_ID = Some ''id'', MONERIS_CLIENT_SECRET = Some ''secret'',
       MONERIS_MERCHANT_ID = Some ''m1'', MONERIS_ENV = None, MONERIS_API_VERSION = None\<rparr>
        1700000000001
        (Inr \<lparr>resp_access_token = ''abc'', resp_token_type = Some ''Bearer'',
              parsed_expires_in = Finite 9007199254740991\<rparr>)
        \<lparr>config_dir = False, token_file = None, mkdir_fails = None, write_fails = None, read_fails = None\<rparr>)
     = Some \<lparr>config_dir = True,
         token_file = Some (Json (JObj [(''access_token'', JStr ''abc''), (''token_type'', JStr ''Bearer''),
                   (''expires_in'', JNum 9007199254740991),
                   (''expires_at'', JNum 9007200954740990976)])),
         mkdir_fails = None, write_fails = None, read_fails = None\<rparr>"
  by (simp add: new_token_def fl_product fl_sum authenticate_def getConfig_def MONERIS_URLS_def
      saveToken_literal_unfold literal_json_def)

text \<open>
  Claim C7, as the code has it. Let \<open>e\<close> be the token's \<open>expires_in\<close> (what \<open>parseInt\<close>
  gave, or 3600 when that is \<open>NaN\<close> or zero). When \<open>e * 1000\<close> and \<open>now + e * 1000\<close> are
  at most \<open>2 ^ 53\<close> in magnitude, the token built at clock \<open>now\<close> has
  \<open>expires_at = now + e * 1000\<close>, and when the call succeeds this token, with this
  \<open>expires_at\<close>, is what the file holds afterwards.
\<close>

theorem authenticate_expires_at_invariant:
  assumes e: "js_or (parsed_expires_in r) 3600 = Finite e"
    and product: "\<bar>e * 1000\<bar> \<le> 9007199254740992"
    and total: "\<bar>now + e * 1000\<bar> \<le> 9007199254740992"
  shows "lit_expires_in (new_token now r) = Finite e
       \<and> lit_expires_at (new_token now r) = Finite (now + e * 1000)
       \<and> as_AuthToken (new_token now r)
           = Some \<lparr>access_token = resp_access_token r,
                   token_type = str_or (resp_token_type r) ''Bearer'',
                   expires_in = e, expires_at = now + e * 1000\<rparr>
       \<and> (getConfig env = Inr config
           \<and> saveToken \<lparr>access_token = resp_access_token r,
                   token_type = str_or (resp_token_type r) ''Bearer'',
                   expires_in = e, expires_at = now + e * 1000\<rparr> fs = Inr fs'
          \<longrightarrow> snd (authenticate env now (Inr r) fs) = Some fs'
            \<and> token_file fs'
                = Some (Json (AuthToken_json \<lparr>access_token = resp_access_token r,
                   token_type = str_or (resp_token_type r) ''Bearer'',
                   expires_in = e, expires_at = now + e * 1000\<rparr>))
            \<and> get_prop (AuthToken_json \<lparr>access_token = resp_access_token r,
                   token_type = str_or (resp_token_type r) ''Bearer'',
                   expires_in = e, expires_at = now + e * 1000\<rparr>) ''expires_at''
                = Inr (Some (JNum (now + e * 1000))))"
proof -
  let ?t = "\<lparr>access_token = resp_access_token r,
             token_type = str_or (resp_token_type r) ''Bearer'',
             expires_in = e, expires_at = now + e * 1000\<rparr>"
  have ein: "lit_expires_in (new_token now r) = Finite e"
    by (simp add: new_token_def e)
  have eat: "lit_expires_at (new_token now r) = Finite (now + e * 1000)"
    by (simp add: new_token_def e fl_exact [OF product] fl_exact [OF total])
  have tok: "as_AuthToken (new_token now r) = Some ?t"
    using ein eat by (simp add: as_AuthToken_def) (simp add: new_token_def)
  have saved: "snd (authenticate env now (Inr r) fs) = Some fs'
      \<and> token_file fs' = Some (Json (AuthToken_json ?t))"
    if "getConfig env = Inr config" "saveToken ?t fs = Inr fs'"
    using that saveToken_Inr [OF that(2)]
    by (simp add: authenticate_def saveToken_literal_def tok)
  show ?thesis
    using ein eat tok saved by (simp add: expires_at_prop)
qed

theorem authenticate_expires_at_invariant_witness:
  "js_or (Finite 1800) 3600 = Finite 1800
   \<and> \<bar>(1800 :: int) * 1000\<bar> \<le> 9007199254740992
   \<and> \<bar>(1700000000000 :: int) + 1800 * 1000\<bar> \<le> 9007199254740992
   \<and> getConfig \<lparr>MONERIS_CLIENT_ID = Some ''id'', MONERIS_CLIENT_SECRET = Some ''secret'',
       MONERIS_MERCHANT_ID = Some ''m1'', MONERIS_ENV = None, MONERIS_API_VERSION = None\<rparr>
     = Inr \<lparr>clientId = ''id'', clientSecret = ''secret'', merchantId = ''m1'',
            baseUrl = Some ''https://api.sb.moneris.io'', apiVersion = [], environment = ''sandbox''\<rparr>
   \<and> lit_expires_at (new_token 1700000000000
        \<lparr>resp_access_token = ''abc'', resp_token_type = None, parsed_expires_in = Finite 1800\<rparr>)
     = Finite 1700001800000
   \<and> snd (authenticate
        \<lparr>MONERIS_CLIENT_ID = Some ''id'', MONERIS_CLIENT_SECRET = Some ''secret'',
       MONERIS_MERCHANT_ID = Some ''m1'', MONERIS_ENV = None, MONERIS_API_VERSION = None\<rparr>
        1700000000000
        (Inr \<lparr>resp_access_token = ''abc'', resp_token_type = None, parsed_expires_in = Finite 1800\<rparr>)
        \<lparr>config_dir = False, token_file = None, mkdir_fails = None, write_fails = None, read_fails = None\<rparr>)
     = Some \<lparr>config_dir = True,
         token_file = Some (Json (JObj [(''access_token'', JStr ''abc''), (''token_type'', JStr ''Bearer''),
                   (''expires_in'', JNum 1800), (''expires_at'', JNum 1700001800000)])),
         mkdir_fails = None, write_fails = None, read_fails = None\<rparr>"
proof -
  let ?env = "\<lparr>MONERIS_CLIENT_ID = Some ''id'', MONERIS_CLIENT_SECRET = Some ''secret'',
       MONERIS_MERCHANT_ID = Some ''m1'', MONERIS_ENV = None, MONERIS_API_VERSION = None\<rparr>"
  let ?cfg = "\<lparr>clientId = ''id'', clientSecret = ''secret'', merchantId = ''m1'',
            baseUrl = Some ''https://api.sb.moneris.io'', apiVersion = [], environment = ''sandbox''\<rparr>"
  let ?r = "\<lparr>resp_access_token = ''abc'', resp_token_type = None, parsed_expires_in = Finite 1800\<rparr>"
  let ?t = "\<lparr>access_token = ''abc'', token_type = ''Bearer'', expires_in = 1800,
             expires_at = 1700001800000\<rparr>"
  let ?fs = "\<lparr>config_dir = False, token_file = None, mkdir_fails = None, write_fails = None, read_fails = None\<rparr>"
  let ?fs' = "\<lparr>config_dir = True, token_file = Some (Json (AuthToken_json ?t)),
         mkdir_fails = None, write_fails = None, read_fails = None\<rparr>"
  have e: "js_or (parsed_expires_in ?r) 3600 = Finite 1800" by simp
  have product: "\<bar>(1800 :: int) * 1000\<bar> \<le> 9007199254740992" by simp
  have total: "\<bar>(1700000000000 :: int) + 1800 * 1000\<bar> \<le> 9007199254740992" by simp
  have cfg: "getConfig ?env = Inr ?cfg" by (simp add: getConfig_def MONERIS_URLS_def)
  have saved: "saveToken ?t ?fs = Inr ?fs'" by (simp add: saveToken_unfold)
  show ?thesis
    using e product total cfg saved
      authenticate_expires_at_invariant [OF e product total, of ?env ?cfg ?fs ?fs']
    by (simp add: AuthToken_json_def)
qed

section \<open>The three versions compared\<close>

text \<open>
  Claim C9. The first version of \<open>loadToken\<close> rejects a token from 60000 milliseconds
  before its \<open>expires_at\<close>, the other two only from \<open>expires_at\<close> on. So there are a
  stored token and a clock value where the first returns \<open>null\<close> and the other two
  return the token; this is so for every readable stored token and every clock value in
  the last 60000 milliseconds before its \<open>expires_at\<close>. At every clock value the first
  version rejects exactly from \<open>expires_at - 60000\<close> on, the other two exactly from
  \<open>expires_at\<close> on.
\<close>

theorem loadToken_versions_disagree:
  "(\<exists>S now fs tok. loadToken S now fs = None
        \<and> loadToken_general S now fs = Some tok \<and> loadToken_postman S now fs = Some tok)
   \<and> (token_file fs = Some (Json (AuthToken_json t)) \<and> read_fails fs = None
        \<and> expires_at t - 60000 \<le> now \<and> now < expires_at t
      \<longrightarrow> loadToken S now fs = None
          \<and> loadToken_general S now fs = Some (AuthToken_json t)
          \<and> loadToken_postman S now fs = Some (AuthToken_json t))
   \<and> (token_file fs = Some (Json (AuthToken_json t)) \<and> read_fails fs = None
      \<longrightarrow> loadToken S now fs
            = (if expires_at t - 60000 \<le> now then None else Some (AuthToken_json t))
          \<and> loadToken_general S now fs
            = (if expires_at t \<le> now then None else Some (AuthToken_json t))
          \<and> loadToken_postman S now fs
            = (if expires_at t \<le> now then None else Some (AuthToken_json t)))"
proof -
  have general: "loadToken S now fs = None
          \<and> loadToken_general S now fs = Some (AuthToken_json t)
          \<and> loadToken_postman S now fs = Some (AuthToken_json t)"
    if "token_file fs = Some (Json (AuthToken_json t))" "read_fails fs = None"
       "expires_at t - 60000 \<le> now" "now < expires_at t"
    for S now fs t
    using that
    by (simp add: loadToken_def loadToken_body_def loadToken_general_def
        loadToken_general_body_def loadToken_postman_def loadToken_postman_body_def
        existsSync_TOKEN_FILE_def readFileSync_def expires_at_prop)
  let ?t = "\<lparr>access_token = ''abc'', token_type = ''Bearer'', expires_in = 3600, expires_at = 3600000\<rparr>"
  let ?fs = "\<lparr>config_dir = True, token_file = Some (Json (AuthToken_json ?t)),
               mkdir_fails = None, write_fails = None, read_fails = None\<rparr>"
  have "loadToken (\<lambda>v. NaN) 3570000 ?fs = None
          \<and> loadToken_general (\<lambda>v. NaN) 3570000 ?fs = Some (AuthToken_json ?t)
          \<and> loadToken_postman (\<lambda>v. NaN) 3570000 ?fs = Some (AuthToken_json ?t)"
    by (rule general) simp_all
  then have "\<exists>S now fs tok. loadToken S now fs = None
        \<and> loadToken_general S now fs = Some tok \<and> loadToken_postman S now fs = Some tok"
    by blast
  then show ?thesis
    using general [of fs t now S] loadToken_of_token [of fs t S now]
      loadToken_general_of_token [of fs t S now] loadToken_postman_of_token [of fs t S now]
    by blast
qed

theorem loadToken_versions_disagree_witness:
  "loadToken_general (\<lambda>v. NaN) 3600000
     \<lparr>config_dir = True, token_file = Some (Json (AuthToken_json
        \<lparr>access_token = ''abc'', token_type = ''Bearer'', expires_in = 3600, expires_at = 3600000\<rparr>)),
      mkdir_fails = None, write_fails = None, read_fails = None\<rparr>
     = None
   \<and> loadToken_postman (\<lambda>v. NaN) 3600000
     \<lparr>config_dir = True, token_file = Some (Json (AuthToken_json
        \<lparr>access_token = ''abc'', token_type = ''Bearer'', expires_in = 3600, expires_at = 3600000\<rparr>)),
      mkdir_fails = None, write_fails = None, read_fails = None\<rparr>
     = None
   \<and> loadToken (\<lambda>v. NaN) 3570000
     \<lparr>config_dir = True, token_file = Some (Json (AuthToken_json
        \<lparr>access_token = ''abc'', token_type = ''Bearer'', expires_in = 3600, expires_at = 3600000\<rparr>)),
      mkdir_fails = None, write_fails = None, read_fails = None\<rparr>
     = None
   \<and> loadToken_general (\<lambda>v. NaN) 3570000
     \<lparr>config_dir = True, token_file = Some (Json (AuthToken_json
        \<lparr>access_token = ''abc'', token_type = ''Bearer'', expires_in = 3600, expires_at = 3600000\<rparr>)),
      mkdir_fails = None, write_fails = None, read_fails = None\<rparr>
     = Some (JObj [(''access_token'', JStr ''abc''), (''token_type'', JStr ''Bearer''),
                   (''expires_in'', JNum 3600), (''expires_at'', JNum 3600000)])
   \<and> loadToken_postman (\<lambda>v. NaN) 3570000
     \<lparr>config_dir = True, token_file = Some (Json (AuthToken_json
        \<lparr>access_token = ''abc'', token_type = ''Bearer'', expires_in = 3600, expires_at = 3600000\<rparr>)),
      mkdir_fails = None, write_fails = None, read_fails = None\<rparr>
     = Some (JObj [(''access_token'', JStr ''abc''), (''token_type'', JStr ''Bearer''),
                   (''expires_in'', JNum 3600), (''expires_at'', JNum 3600000)])"
  using loadToken_versions_disagree [of "\<lparr>config_dir = True, token_file = Some (Json (AuthToken_json
        \<lparr>access_token = ''abc'', token_type = ''Bearer'', expires_in = 3600, expires_at = 3600000\<rparr>)),
      mkdir_fails = None, write_fails = None, read_fails = None\<rparr>"
      "\<lparr>access_token = ''abc'', token_type = ''Bearer'', expires_in = 3600, expires_at = 3600000\<rparr>"
      3570000 "\<lambda>v. NaN"]
    loadToken_versions_disagree [of "\<lparr>config_dir = True, token_file = Some (Json (AuthToken_json
        \<lparr>access_token = ''abc'', token_type = ''Bearer'', expires_in = 3600, expires_at = 3600000\<rparr>)),
      mkdir_fails = None, write_fails = None, read_fails = None\<rparr>"
      "\<lparr>access_token = ''abc'', token_type = ''Bearer'', expires_in = 3600, expires_at = 3600000\<rparr>"
      3600000 "\<lambda>v. NaN"]
  by (simp add: AuthToken_json_def)

section \<open>Parsable files that are not tokens\<close>

text \<open>
  Claim C10 says that a file of valid JSON whose \<open>expires_at\<close> is missing or not a
  number is always returned as a token. That fails where the value coerces to a number:
  \<open>null\<close> counts as \<open>0\<close> and \<open>true\<close> as \<open>1\<close>, so the comparison holds and
  \<open>loadToken\<close> returns \<open>null\<close>; and a file holding just \<open>null\<close> makes the property
  read throw, which the \<open>catch\<close> turns into \<open>null\<close> as well.
\<close>

theorem loadToken_coercible_expiry_example:
  "loadToken (\<lambda>v. NaN) 1700000000000
     \<lparr>config_dir = True,
      token_file = Some (Json (JObj [(''access_token'', JStr ''abc''), (''expires_at'', JNull)])),
      mkdir_fails = None, write_fails = None, read_fails = None\<rparr> = None
   \<and> loadToken_postman (\<lambda>v. NaN) 1700000000000
     \<lparr>config_dir = True,
      token_file = Some (Json (JObj [(''access_token'', JStr ''abc''), (''expires_at'', JNull)])),
      mkdir_fails = None, write_fails = None, read_fails = None\<rparr> = None
   \<and> loadToken (\<lambda>v. NaN) 1700000000000
     \<lparr>config_dir = True,
      token_file = Some (Json (JObj [(''access_token'', JStr ''abc''), (''expires_at'', JBool True)])),
      mkdir_fails = None, write_fails = None, read_fails = None\<rparr> = None
   \<and> loadToken (\<lambda>v. NaN) 1700000000000
     \<lparr>config_dir = True, token_file = Some (Json JNull),
      mkdir_fails = None, write_fails = None, read_fails = None\<rparr> = None"
  by (simp add: loadToken_def loadToken_body_def loadToken_postman_def loadToken_postman_body_def
      existsSync_TOKEN_FILE_def readFileSync_def)

text \<open>
  Claim C10, as the code has it, for a readable file that holds a JSON value \<open>v\<close>.
  When \<open>v\<close> is not \<open>null\<close> and its \<open>expires_at\<close> is missing, or has a value that
  ToNumber turns into \<open>NaN\<close>, every version of \<open>loadToken\<close> returns \<open>v\<close> at every
  clock value. The callers' test \<open>!token\<close> is then true exactly when \<open>v\<close> is falsy
  (\<open>false\<close>, \<open>0\<close>, the empty string): such a value is returned and still reported as
  not authenticated by \<open>createPayment\<close> of the first file and \<open>listPayments\<close> of the
  third; every other value passes the test as a token. When \<open>expires_at\<close> is \<open>null\<close>,
  \<open>true\<close> or \<open>false\<close> it is compared as the number 0, 1 or 0: the first version
  returns \<open>null\<close> exactly when the clock has reached that number less 60000, the other
  two exactly when it has reached that number. When \<open>v\<close> is \<open>null\<close> all three return
  \<open>null\<close> at every clock value.
\<close>

theorem loadToken_nan_expiry_never_expires:
  assumes slot: "token_file fs = Some (Json v)" and readable: "read_fails fs = None"
  shows
    "(get_prop v ''expires_at'' = Inr ea \<and> ToNumber S ea = NaN \<longrightarrow>
        loadToken S now fs = Some v
      \<and> loadToken_general S now fs = Some v
      \<and> loadToken_postman S now fs = Some v
      \<and> js_not (loadToken S now fs) = falsy v
      \<and> js_not (loadToken_general S now fs) = falsy v
      \<and> js_not (loadToken_postman S now fs) = falsy v)
   \<and> (get_prop v ''expires_at'' = Inr ea \<and> ToNumber S ea = NaN \<and> falsy v
        \<and> getConfig env = Inr c1 \<longrightarrow>
        createPayment S env now fs http
          = [ConsoleError ''Not authenticated'',
             ConsoleLog ''Please run: moneris-cli-no-postman auth'', ProcessExit 1])
   \<and> (get_prop v ''expires_at'' = Inr ea \<and> ToNumber S ea = NaN \<and> falsy v
        \<and> getConfig_postman env = Inr c3 \<longrightarrow>
        listPayments_postman S env now fs http
          = [ConsoleError ''Not authenticated'',
             ConsoleLog ''Please run: moneris-cli auth'', ProcessExit 1])
   \<and> (get_prop v ''expires_at'' = Inr (Some JNull) \<longrightarrow>
        loadToken S now fs = (if 0 - 60000 \<le> now then None else Some v)
      \<and> loadToken_general S now fs = (if 0 \<le> now then None else Some v)
      \<and> loadToken_postman S now fs = (if 0 \<le> now then None else Some v))
   \<and> (get_prop v ''expires_at'' = Inr (Some (JBool b)) \<longrightarrow>
        loadToken S now fs = (if (if b then 1 else 0) - 60000 \<le> now then None else Some v)
      \<and> loadToken_general S now fs = (if (if b then 1 else 0) \<le> now then None else Some v)
      \<and> loadToken_postman S now fs = (if (if b then 1 else 0) \<le> now then None else Some v))
   \<and> (v = JNull \<longrightarrow>
        loadToken S now fs = None
      \<and> loadToken_general S now fs = None
      \<and> loadToken_postman S now fs = None)"
proof -
  note loaders = loadToken_def loadToken_body_def loadToken_general_def
    loadToken_general_body_def loadToken_postman_def loadToken_postman_body_def
    existsSync_TOKEN_FILE_def readFileSync_def
  have nan: "loadToken S now fs = Some v \<and> loadToken_general S now fs = Some v
      \<and> loadToken_postman S now fs = Some v"
    if "get_prop v ''expires_at'' = Inr ea" "ToNumber S ea = NaN"
    using slot readable that by (simp add: loaders)
  have guard: "js_not (loadToken S now fs) = falsy v
      \<and> js_not (loadToken_general S now fs) = falsy v
      \<and> js_not (loadToken_postman S now fs) = falsy v"
    if "get_prop v ''expires_at'' = Inr ea" "ToNumber S ea = NaN"
    using nan [OF that] by (simp add: js_not_def)
  have first: "createPayment S env now fs http
          = [ConsoleError ''Not authenticated'',
             ConsoleLog ''Please run: moneris-cli-no-postman auth'', ProcessExit 1]"
    if "get_prop v ''expires_at'' = Inr ea" "ToNumber S ea = NaN" "falsy v"
       "getConfig env = Inr c1"
    using nan [OF that(1,2)] that(3,4)
    by (simp add: createPayment_def not_authenticated_def)
  have third: "listPayments_postman S env now fs http
          = [ConsoleError ''Not authenticated'',
             ConsoleLog ''Please run: moneris-cli auth'', ProcessExit 1]"
    if "get_prop v ''expires_at'' = Inr ea" "ToNumber S ea = NaN" "falsy v"
       "getConfig_postman env = Inr c3"
    using nan [OF that(1,2)] that(3,4)
    by (simp add: listPayments_postman_def not_authenticated_def)
  have null_field: "loadToken S now fs = (if 0 - 60000 \<le> now then None else Some v)
      \<and> loadToken_general S now fs = (if 0 \<le> now then None else Some v)
      \<and> loadToken_postman S now fs = (if 0 \<le> now then None else Some v)"
    if "get_prop v ''expires_at'' = Inr (Some JNull)"
    using slot readable that by (simp add: loaders)
  have bool_field: "loadToken S now fs
        = (if (if b then 1 else 0) - 60000 \<le> now then None else Some v)
      \<and> loadToken_general S now fs = (if (if b then 1 else 0) \<le> now then None else Some v)
      \<and> loadToken_postman S now fs = (if (if b then 1 else 0) \<le> now then None else Some v)"
    if "get_prop v ''expires_at'' = Inr (Some (JBool b))"
    using slot readable that by (simp add: loaders)
  have null_slot: "loadToken S now fs = None \<and> loadToken_general S now fs = None
      \<and> loadToken_postman S now fs = None"
    if "v = JNull"
    using slot readable that by (simp add: loaders)
  show ?thesis
    using nan guard first third null_field bool_field null_slot by blast
qed

theorem loadToken_nan_expiry_never_expires_witness:
  "loadToken (\<lambda>v. NaN) 99999999999999
       \<lparr>config_dir = True, token_file = Some (Json (JObj [(''access_token'', JStr ''abc'')])),
        mkdir_fails = None, write_fails = None, read_fails = None\<rparr>
     = Some (JObj [(''access_token'', JStr ''abc'')])
   \<and> js_not (loadToken (\<lambda>v. NaN) 99999999999999
       \<lparr>config_dir = True, token_file = Some (Json (JObj [(''access_token'', JStr ''abc'')])),
        mkdir_fails = None, write_fails = None, read_fails = None\<rparr>) = False
   \<and> loadToken_postman (\<lambda>v. NaN) 99999999999999
       \<lparr>config_dir = True, token_file = Some (Json (JObj [(''access_token'', JStr ''abc'')])),
        mkdir_fails = None, write_fails = None, read_fails = None\<rparr>
     = Some (JObj [(''access_token'', JStr ''abc'')])
   \<and> loadToken (\<lambda>v. NaN) 1700000000000
       \<lparr>config_dir = True, token_file = Some (Json (JBool False)),
        mkdir_fails = None, write_fails = None, read_fails = None\<rparr>
     = Some (JBool False)
   \<and> createPayment (\<lambda>v. NaN)
       \<lparr>MONERIS_CLIENT_ID = Some ''id'', MONERIS_CLIENT_SECRET = Some ''secret'',
       MONERIS_MERCHANT_ID = Some ''m1'', MONERIS_ENV = None, MONERIS_API_VERSION = None\<rparr>
       1700000000000
       \<lparr>config_dir = True, token_file = Some (Json (JBool False)),
        mkdir_fails = None, write_fails = None, read_fails = None\<rparr>
       (Inr ())
     = [ConsoleError ''Not authenticated'',
        ConsoleLog ''Please run: moneris-cli-no-postman auth'', ProcessExit 1]
   \<and> loadToken (\<lambda>v. NaN) (- 60001)
       \<lparr>config_dir = True, token_file = Some (Json (JObj [(''expires_at'', JNull)])),
        mkdir_fails = None, write_fails = None, read_fails = None\<rparr>
     = Some (JObj [(''expires_at'', JNull)])
   \<and> loadToken (\<lambda>v. NaN) (- 60000)
       \<lparr>config_dir = True, token_file = Some (Json (JObj [(''expires_at'', JNull)])),
        mkdir_fails = None, write_fails = None, read_fails = None\<rparr>
     = None
   \<and> loadToken_general (\<lambda>v. NaN) 0
       \<lparr>config_dir = True, token_file = Some (Json (JObj [(''expires_at'', JBool True)])),
        mkdir_fails = None, write_fails = None, read_fails = None\<rparr>
     = Some (JObj [(''expires_at'', JBool True)])
   \<and> loadToken_general (\<lambda>v. NaN) 1
       \<lparr>config_dir = True, token_file = Some (Json (JObj [(''expires_at'', JBool True)])),
        mkdir_fails = None, write_fails = None, read_fails = None\<rparr>
     = None
   \<and> loadToken (\<lambda>v. NaN) 1700000000000
       \<lparr>config_dir = True, token_file = Some (Json (JNull)),
        mkdir_fails = None, write_fails = None, read_fails = None\<rparr>
     = None"
proof -
  let ?S = "\<lambda>v::json. NaN"
  let ?env = "\<lparr>MONERIS_CLIENT_ID = Some ''id'', MONERIS_CLIENT_SECRET = Some ''secret'',
       MONERIS_MERCHANT_ID = Some ''m1'', MONERIS_ENV = None, MONERIS_API_VERSION = None\<rparr>"
  let ?c1 = "\<lparr>clientId = ''id'', clientSecret = ''secret'', merchantId = ''m1'',
            baseUrl = Some ''https://api.sb.moneris.io'', apiVersion = [], environment = ''sandbox''\<rparr>"
  have cfg: "getConfig ?env = Inr ?c1" by (simp add: getConfig_def MONERIS_URLS_def)
  show ?thesis
    using cfg
      loadToken_nan_expiry_never_expires
        [where fs = "\<lparr>config_dir = True, token_file = Some (Json (JObj [(''access_token'', JStr ''abc'')])),
        mkdir_fails = None, write_fails = None, read_fails = None\<rparr>"
          and v = "JObj [(''access_token'', JStr ''abc'')]" and ea = None and S = ?S
          and now = 99999999999999]
      loadToken_nan_expiry_never_expires
        [where fs = "\<lparr>config_dir = True, token_file = Some (Json (JBool False)),
        mkdir_fails = None, write_fails = None, read_fails = None\<rparr>"
          and v = "JBool False" and ea = None and S = ?S and now = 1700000000000
          and env = ?env and ?c1.0 = ?c1 and http = "Inr ()"]
      loadToken_nan_expiry_never_expires
        [where fs = "\<lparr>config_dir = True, token_file = Some (Json (JObj [(''expires_at'', JNull)])),
        mkdir_fails = None, write_fails = None, read_fails = None\<rparr>"
          and v = "JObj [(''expires_at'', JNull)]" and S = ?S and now = "- 60001"]
      loadToken_nan_expiry_never_expires
        [where fs = "\<lparr>config_dir = True, token_file = Some (Json (JObj [(''expires_at'', JNull)])),
        mkdir_fails = None, write_fails = None, read_fails = None\<rparr>"
          and v = "JObj [(''expires_at'', JNull)]" and S = ?S and now = "- 60000"]
      loadToken_nan_expiry_never_expires
        [where fs = "\<lparr>config_dir = True, token_file = Some (Json (JObj [(''expires_at'', JBool True)])),
        mkdir_fails = None, write_fails = None, read_fails = None\<rparr>"
          and v = "JObj [(''expires_at'', JBool True)]" and b = True and S = ?S and now = 0]
      loadToken_nan_expiry_never_expires
        [where fs = "\<lparr>config_dir = True, token_file = Some (Json (JObj [(''expires_at'', JBool True)])),
        mkdir_fails = None, write_fails = None, read_fails = None\<rparr>"
          and v = "JObj [(''expires_at'', JBool True)]" and b = True and S = ?S and now = 1]
      loadToken_nan_expiry_never_expires
        [where fs = "\<lparr>config_dir = True, token_file = Some (Json (JNull)),
        mkdir_fails = None, write_fails = None, read_fails = None\<rparr>"
          and v = JNull and S = ?S and now = 1700000000000]
    by (simp add: js_not_def)
qed

section \<open>Commands without a token\<close>

lemma requests_not_authenticated: "requests (not_authenticated prog) = []"
  by (simp add: requests_def not_authenticated_def)

lemma get_prop_truthy: "\<not> falsy tok \<Longrightarrow> \<exists>b. get_prop tok k = Inr b"
  by (cases tok) simp_all

text \<open>
  With a token, and its first lines printed, the command does send its request: the guard
  is what stops it.
\<close>

lemma createPayment_with_token:
  assumes "getConfig env = Inr c" and "loadToken S now fs = Some tok" and "\<not> falsy tok"
  shows "\<exists>b. requests (createPayment S env now fs http)
           = [Request POST (baseUrl c) (''/merchants/'' @ merchantId c @ ''/payments'') b]"
proof -
  from get_prop_truthy [OF assms(3)] obtain b where b: "get_prop tok ''access_token'' = Inr b"
    by blast
  show ?thesis
    using assms b
    by (auto simp: createPayment_def api_call_def requests_def handleError_def split: sum.splits)
qed

text \<open>
  Claim C5. In each command that needs a token (\<open>create-payment\<close>, \<open>get-payment\<close>,
  \<open>void-payment\<close> of the first file, \<open>create-payment\<close> and \<open>list-payments\<close> of the
  second and of the third), once the configuration is read, a
  \<open>loadToken\<close> that returns \<open>null\<close> (or any falsy value) makes the command print
  that the user is not authenticated and must run the \<open>auth\<close> command, and exit with
  status 1. It sends no request, the token endpoint included.
\<close>

theorem commands_halt_when_not_authenticated:
  "(getConfig env = Inr c1 \<and> js_not (loadToken S now fs) \<longrightarrow>
      createPayment S env now fs http
        = [ConsoleError ''Not authenticated'',
           ConsoleLog ''Please run: moneris-cli-no-postman auth'', ProcessExit 1]
      \<and> getPayment S env now fs pid http
        = [ConsoleError ''Not authenticated'',
           ConsoleLog ''Please run: moneris-cli-no-postman auth'', ProcessExit 1]
      \<and> voidPayment S env now fs pid http
        = [ConsoleError ''Not authenticated'',
           ConsoleLog ''Please run: moneris-cli-no-postman auth'', ProcessExit 1]
      \<and> requests (createPayment S env now fs http) = []
      \<and> requests (getPayment S env now fs pid http) = []
      \<and> requests (voidPayment S env now fs pid http) = [])
   \<and> (getConfig_general env = Inr c2 \<and> js_not (loadToken_general S now fs) \<longrightarrow>
      createPayment_general S env now fs http
        = [ConsoleError ''Not authenticated'',
           ConsoleLog ''Please run: moneris-cli-no-postman auth'', ProcessExit 1]
      \<and> listPayments_general S env now fs http
        = [ConsoleError ''Not authenticated'',
           ConsoleLog ''Please run: moneris-cli-no-postman auth'', ProcessExit 1]
      \<and> requests (createPayment_general S env now fs http) = []
      \<and> requests (listPayments_general S env now fs http) = [])
   \<and> (getConfig_postman env = Inr c3 \<and> js_not (loadToken_postman S now fs) \<longrightarrow>
      listPayments_postman S env now fs http
        = [ConsoleError ''Not authenticated'',
           ConsoleLog ''Please run: moneris-cli auth'', ProcessExit 1]
      \<and> createPayment_postman S env now fs invalid_amount http
        = [ConsoleError ''Not authenticated'',
           ConsoleLog ''Please run: moneris-cli auth'', ProcessExit 1]
      \<and> requests (listPayments_postman S env now fs http) = []
      \<and> requests (createPayment_postman S env now fs invalid_amount http) = [])"
proof -
  have na1: "not_authenticated ''moneris-cli-no-postman''
      = [ConsoleError ''Not authenticated'',
           ConsoleLog ''Please run: moneris-cli-no-postman auth'', ProcessExit 1]"
    by (simp add: not_authenticated_def)
  have na3: "not_authenticated ''moneris-cli''
      = [ConsoleError ''Not authenticated'',
           ConsoleLog ''Please run: moneris-cli auth'', ProcessExit 1]"
    by (simp add: not_authenticated_def)
  have first: "createPayment S env now fs http = not_authenticated ''moneris-cli-no-postman''
      \<and> getPayment S env now fs pid http = not_authenticated ''moneris-cli-no-postman''
      \<and> voidPayment S env now fs pid http = not_authenticated ''moneris-cli-no-postman''"
    if "getConfig env = Inr c1" "js_not (loadToken S now fs)"
    using that
    by (auto simp: createPayment_def getPayment_def voidPayment_def js_not_def
        split: option.splits)
  have second: "createPayment_general S env now fs http = not_authenticated ''moneris-cli-no-postman''
      \<and> listPayments_general S env now fs http = not_authenticated ''moneris-cli-no-postman''"
    if "getConfig_general env = Inr c2" "js_not (loadToken_general S now fs)"
    using that
    by (auto simp: createPayment_general_def listPayments_general_def js_not_def
        split: option.splits)
  have third: "listPayments_postman S env now fs http = not_authenticated ''moneris-cli''
      \<and> createPayment_postman S env now fs invalid_amount http = not_authenticated ''moneris-cli''"
    if "getConfig_postman env = Inr c3" "js_not (loadToken_postman S now fs)"
    using that
    by (auto simp: listPayments_postman_def createPayment_postman_def js_not_def
        split: option.splits)
  show ?thesis
    using first second third
    by (simp add: requests_not_authenticated na1 [symmetric] na3 [symmetric])
qed

theorem commands_halt_when_not_authenticated_witness:
  "getConfig \<lparr>MONERIS_CLIENT_ID = Some ''id'', MONERIS_CLIENT_SECRET = Some ''secret'',
       MONERIS_MERCHANT_ID = Some ''m1'', MONERIS_ENV = None, MONERIS_API_VERSION = None\<rparr>
     = Inr \<lparr>clientId = ''id'', clientSecret = ''secret'', merchantId = ''m1'',
            baseUrl = Some ''https://api.sb.moneris.io'', apiVersion = [], environment = ''sandbox''\<rparr>
   \<and> js_not (loadToken (\<lambda>v. NaN) 1700000000000
        \<lparr>config_dir = False, token_file = None, mkdir_fails = None, write_fails = None, read_fails = None\<rparr>)
   \<and> createPayment (\<lambda>v. NaN)
        \<lparr>MONERIS_CLIENT_ID = Some ''id'', MONERIS_CLIENT_SECRET = Some ''secret'',
          MONERIS_MERCHANT_ID = Some ''m1'', MONERIS_ENV = None, MONERIS_API_VERSION = None\<rparr>
        1700000000000
        \<lparr>config_dir = False, token_file = None, mkdir_fails = None, write_fails = None, read_fails = None\<rparr>
        (Inr ())
     = [ConsoleError ''Not authenticated'',
        ConsoleLog ''Please run: moneris-cli-no-postman auth'', ProcessExit 1]
   \<and> listPayments_postman (\<lambda>v. NaN)
        \<lparr>MONERIS_CLIENT_ID = Some ''id'', MONERIS_CLIENT_SECRET = Some ''secret'',
          MONERIS_MERCHANT_ID = Some ''m1'', MONERIS_ENV = None, MONERIS_API_VERSION = None\<rparr>
        1700000000000
        \<lparr>config_dir = False, token_file = None, mkdir_fails = None, write_fails = None, read_fails = None\<rparr>
        (Inr ())
     = [ConsoleError ''Not authenticated'',
        ConsoleLog ''Please run: moneris-cli auth'', ProcessExit 1]"
proof -
  let ?env = "\<lparr>MONERIS_CLIENT_ID = Some ''id'', MONERIS_CLIENT_SECRET = Some ''secret'',
       MONERIS_MERCHANT_ID = Some ''m1'', MONERIS_ENV = None, MONERIS_API_VERSION = None\<rparr>"
  let ?c1 = "\<lparr>clientId = ''id'', clientSecret = ''secret'', merchantId = ''m1'',
            baseUrl = Some ''https://api.sb.moneris.io'', apiVersion = [], environment = ''sandbox''\<rparr>"
  let ?c3 = "\<lparr>clientId = ''id'', clientSecret = ''secret'', merchantId = ''m1'',
            baseUrl = Some ''https://api.sb.moneris.io'', apiVersion = ''2025-08-14'',
            environment = ''sandbox''\<rparr>"
  let ?fs = "\<lparr>config_dir = False, token_file = None, mkdir_fails = None, write_fails = None, read_fails = None\<rparr>"
  have cfg1: "getConfig ?env = Inr ?c1" by (simp add: getConfig_def MONERIS_URLS_def)
  have cfg3: "getConfig_postman ?env = Inr ?c3" by (simp add: getConfig_postman_def MONERIS_URLS_def)
  have absent1: "js_not (loadToken (\<lambda>v. NaN) 1700000000000 ?fs)"
    by (simp add: js_not_def loadToken_def loadToken_body_def existsSync_TOKEN_FILE_def)
  have absent3: "js_not (loadToken_postman (\<lambda>v. NaN) 1700000000000 ?fs)"
    by (simp add: js_not_def loadToken_postman_def loadToken_postman_body_def
        existsSync_TOKEN_FILE_def)
  show ?thesis
    using cfg1 cfg3 absent1 absent3
      commands_halt_when_not_authenticated
        [where env = ?env and ?c1.0 = ?c1 and ?c3.0 = ?c3 and S = "\<lambda>v. NaN"
          and now = 1700000000000 and fs = ?fs and http = "Inr ()"]
    by simp
qed

end
